theory Spec2Isabelle
  imports Complex_Main
begin

section \<open>The sampling loop of \<open>NormalizingFlowsPlugin._generate\<close>\<close>

text \<open>
  The source (\<open>plugin_nflow.py\<close>, lines 270 to 291):
  \<^verbatim>\<open>
  def _internal_generate(count: int) -> pd.DataFrame:
      batch = min(5000, count)

      result = self.model.generate(1)
      max_retries = count / batch + 1

      count -= 1
      retries = 0

      while count > 0 and retries < max_retries:
          batch = min(batch, count)
          try:
              result = pd.concat(
                  [result, self.model.generate(batch)], ignore_index=True
              )
          except BaseException:
              pass

          count -= batch
          retries += 1

      return result
  \<close>

  The trained model is opaque. A \<open>sampler\<close> gives the outcome of the \<open>i\<close>-th call of
  \<open>self.model.generate\<close> (calls counted from 0) when it is asked for \<open>n\<close> rows: an
  exception (\<open>Inl\<close>) or a table (\<open>Inr\<close>), a table being the list of its rows. Every
  behaviour of a stateful or random model during one run is such a function.
  \<open>pd.concat(..., ignore_index=True)\<close> of two tables is the concatenation of their rows.

  Python's \<open>/\<close> on two ints is true division, not floor division: \<open>max_retries\<close> is a
  fraction. It is modelled by the exact quotient in \<^typ>\<open>rat\<close>. Python computes the
  nearest double instead; the loop only ever compares it with the integer \<open>retries\<close>,
  and for every count below \<open>2 ^ 40\<close> the double lies on the same side of every integer
  as the exact quotient (the quotient is an integer, and then exact, or at least
  \<open>1 / 5000\<close> away from every integer, while the two roundings move it by less than
  \<open>2 ^ - 23\<close>).
\<close>

type_synonym ('e, 'r) sampler = "nat \<Rightarrow> int \<Rightarrow> 'e + 'r list"

datatype 'e failure = ZeroDivisionError | Raised 'e

text \<open>
  The local variables of \<open>_internal_generate\<close>. \<open>requests\<close> is a ghost variable: one
  entry per call of \<open>self.model.generate\<close> so far, in call order, holding the value of
  \<open>count\<close> when the call was made and the number of rows asked for.
\<close>

record 'r locals =
  batch :: int
  result :: "'r list"
  max_retries :: rat
  count :: int
  retries :: int
  requests :: "(int \<times> int) list"

definition loop_cond :: "'r locals \<Rightarrow> bool" where
  "loop_cond st \<longleftrightarrow> 0 < count st \<and> of_int (retries st) < max_retries st"

definition loop_body :: "('e, 'r) sampler \<Rightarrow> 'r locals \<Rightarrow> 'r locals" where
  "loop_body gen st =
     (let b = min (batch st) (count st);
          res = (case gen (length (requests st)) b of
                   Inr rows \<Rightarrow> result st @ rows
                 | Inl e \<Rightarrow> result st)
      in st\<lparr>batch := b, result := res, count := count st - b,
            retries := retries st + 1, requests := requests st @ [(count st, b)]\<rparr>)"

function loop :: "('e, 'r) sampler \<Rightarrow> 'r locals \<Rightarrow> 'r locals" where
  "loop gen st = (if loop_cond st then loop gen (loop_body gen st) else st)"
  by pat_completeness auto
termination
proof (relation "measure (\<lambda>(gen, st). nat \<lceil>max_retries st - of_int (retries st)\<rceil>)")
  show "wf (measure (\<lambda>(gen :: ('e, 'r) sampler, st :: 'r locals).
            nat \<lceil>max_retries st - of_int (retries st)\<rceil>))"
    by simp
next
  fix gen :: "('e, 'r) sampler" and st :: "'r locals"
  assume c: "loop_cond st"
  let ?d = "max_retries st - of_int (retries st)"
  from c have pos: "0 < ?d"
    by (simp add: loop_cond_def)
  then have "0 < \<lceil>?d\<rceil>"
    by (simp only: zero_less_ceiling)
  moreover have "max_retries st - of_int (retries st + 1) = ?d - 1"
    by simp
  then have "\<lceil>max_retries st - of_int (retries st + 1)\<rceil> = \<lceil>?d\<rceil> - 1"
    by (simp only: ceiling_diff_one)
  ultimately show "((gen, loop_body gen st), (gen, st))
      \<in> measure (\<lambda>(gen, st). nat \<lceil>max_retries st - of_int (retries st)\<rceil>)"
    by (simp add: loop_body_def Let_def)
qed

declare loop.simps [simp del]

text \<open>
  A run returns the requests made to the model, in order, and how it ended: the
  exception that left \<open>_internal_generate\<close>, or the local variables at \<open>return\<close>.
  \<open>count / batch\<close> raises ZeroDivisionError exactly when \<open>batch\<close> is 0; it is evaluated
  after the first draw.
\<close>

definition internal_generate_run ::
    "('e, 'r) sampler \<Rightarrow> int \<Rightarrow> (int \<times> int) list \<times> ('e failure + 'r locals)" where
  "internal_generate_run gen cnt =
     (let batch0 = min 5000 cnt in
      case gen 0 1 of
        Inl e \<Rightarrow> ([(cnt, 1)], Inl (Raised e))
      | Inr rows \<Rightarrow>
          if batch0 = 0 then ([(cnt, 1)], Inl ZeroDivisionError)
          else
            let st = loop gen \<lparr>batch = batch0, result = rows,
                       max_retries = of_int cnt / of_int batch0 + 1,
                       count = cnt - 1, retries = 0, requests = [(cnt, 1)]\<rparr>
            in (requests st, Inr st))"

definition internal_generate :: "('e, 'r) sampler \<Rightarrow> int \<Rightarrow> 'e failure + 'r list" where
  "internal_generate gen cnt = map_sum id result (snd (internal_generate_run gen cnt))"

section \<open>The hyperparameter schema\<close>

text \<open>
  \<open>hyperparameter_space\<close> (lines 190 to 214) returns a list of \<open>Distribution\<close> objects.
  The distribution classes are imported from \<open>synthcity.plugins.core.distribution\<close>; an
  object is modelled by the keyword arguments the source passes to its constructor
  (\<open>step\<close> is \<open>None\<close> where the source passes none). A float literal is the rational its
  decimal notation denotes.
\<close>

datatype hp_value = IntV int | FloatV rat | BoolV bool | StrV string

datatype distribution =
    IntegerDistribution (name: string) (low: int) (high: int) (step: "int option")
  | FloatDistribution (name: string) (flow: rat) (fhigh: rat)
  | CategoricalDistribution (name: string) (choices: "hp_value list")

definition hyperparameter_space :: "(string \<times> 'a) list \<Rightarrow> distribution list" where
  "hyperparameter_space kwargs' =
     [IntegerDistribution ''n_iter'' 100 5000 (Some 100),
      IntegerDistribution ''n_layers_hidden'' 1 10 None,
      IntegerDistribution ''n_units_hidden'' 10 100 None,
      CategoricalDistribution ''batch_size'' [IntV 32, IntV 64, IntV 128, IntV 256, IntV 512],
      FloatDistribution ''dropout'' 0 (2 / 10),
      CategoricalDistribution ''batch_norm'' [BoolV True, BoolV False],
      CategoricalDistribution ''lr'' [FloatV (1 / 1000), FloatV (1 / 10000), FloatV (2 / 10000)],
      CategoricalDistribution ''linear_transform_type''
        [StrV ''lu'', StrV ''permutation'', StrV ''svd''],
      CategoricalDistribution ''base_transform_type''
        [StrV ''affine-coupling'',
         StrV ''quadratic-coupling'',
         StrV ''rq-coupling'',
         StrV ''affine-autoregressive'',
         StrV ''quadratic-autoregressive'',
         StrV ''rq-autoregressive'']]"

section \<open>The constructor\<close>

text \<open>
  \<open>NormalizingFlowsPlugin.__init__\<close> (lines 110 to 180). \<open>init_args\<close> holds the
  parameters of the signature; \<open>'a\<close> stands for \<open>Any\<close>. \<open>@validate_arguments\<close> checks
  each argument against its annotation, which the field types express. A \<open>Path\<close> is
  the string it was made from.
\<close>

datatype weighted_metrics =
  WeightedMetrics (metrics: "(string \<times> string) list") (weights: "rat list")
    (metrics_workspace: string)

record 'a init_args =
  n_iter :: int
  n_layers_hidden :: int
  n_units_hidden :: int
  batch_size :: int
  num_transform_blocks :: int
  dropout :: rat
  batch_norm :: bool
  num_bins :: int
  tail_bound :: rat
  lr :: rat
  apply_unconditional_transform :: bool
  base_distribution :: string
  linear_transform_type :: string
  base_transform_type :: string
  encoder_max_clusters :: int
  tabular :: bool
  n_iter_min :: int
  n_iter_print :: int
  patience :: int
  patience_metric :: "weighted_metrics option"
  workspace :: string
  compress_dataset :: bool
  sampling_patience :: int
  random_state :: int
  device :: 'a
  kwargs :: "(string \<times> 'a) list"

text \<open>The names of the parameters of the signature, \<open>**kwargs\<close> apart.\<close>

definition init_param_names :: "string list" where
  "init_param_names =
     [''n_iter'', ''n_layers_hidden'', ''n_units_hidden'', ''batch_size'',
      ''num_transform_blocks'', ''dropout'', ''batch_norm'', ''num_bins'', ''tail_bound'',
      ''lr'', ''apply_unconditional_transform'', ''base_distribution'',
      ''linear_transform_type'', ''base_transform_type'', ''encoder_max_clusters'',
      ''tabular'', ''n_iter_min'', ''n_iter_print'', ''patience'', ''patience_metric'',
      ''workspace'', ''compress_dataset'', ''sampling_patience'', ''random_state'',
      ''device'']"

text \<open>
  The default values of the signature. The constant \<open>DEVICE\<close> of
  \<open>synthcity.utils.constants\<close> is a parameter.
\<close>

definition default_args :: "'a \<Rightarrow> 'a init_args" where
  "default_args DEVICE =
     \<lparr>n_iter = 1000, n_layers_hidden = 1, n_units_hidden = 100, batch_size = 500,
      num_transform_blocks = 1, dropout = 1 / 10, batch_norm = False, num_bins = 8,
      tail_bound = 3, lr = 1 / 1000, apply_unconditional_transform = True,
      base_distribution = ''standard_normal'', linear_transform_type = ''permutation'',
      base_transform_type = ''rq-autoregressive'', encoder_max_clusters = 10,
      tabular = True, n_iter_min = 100, n_iter_print = 50, patience = 5,
      patience_metric = None, workspace = ''workspace'', compress_dataset = False,
      sampling_patience = 500, random_state = 0, device = DEVICE, kwargs = []\<rparr>"

text \<open>
  The object after \<open>__init__\<close>: what the base class initialiser made (\<open>base\<close>) and the
  attributes assigned in lines 158 to 180.
\<close>

record 'b plugin =
  base :: 'b
  self_n_iter :: int
  self_n_layers_hidden :: int
  self_n_units_hidden :: int
  self_batch_size :: int
  self_num_transform_blocks :: int
  self_dropout :: rat
  self_batch_norm :: bool
  self_num_bins :: int
  self_tail_bound :: rat
  self_apply_unconditional_transform :: bool
  self_lr :: rat
  self_base_distribution :: string
  self_linear_transform_type :: string
  self_base_transform_type :: string
  self_encoder_max_clusters :: int
  self_tabular :: bool
  self_n_iter_min :: int
  self_n_iter_print :: int
  self_patience :: int
  self_patience_metric :: weighted_metrics

text \<open>
  \<open>Plugin.__init__\<close> is not part of this file: \<open>super_init\<close> is a parameter, called with the
  six arguments the source passes (device, random_state, sampling_patience, workspace,
  compress_dataset, kwargs); it raises (\<open>Inl\<close>) or returns the base object.
\<close>

definition init ::
    "('a \<Rightarrow> int \<Rightarrow> int \<Rightarrow> string \<Rightarrow> bool \<Rightarrow> (string \<times> 'a) list \<Rightarrow> 'x + 'b)
      \<Rightarrow> 'a init_args \<Rightarrow> 'x + 'b plugin" where
  "init super_init a =
     (case super_init (device a) (random_state a) (sampling_patience a) (workspace a)
             (compress_dataset a) (kwargs a) of
        Inl x \<Rightarrow> Inl x
      | Inr b \<Rightarrow>
          let patience_metric' =
                (case patience_metric a of
                   None \<Rightarrow> WeightedMetrics [(''detection'', ''detection_mlp'')] [1] (workspace a)
                 | Some m \<Rightarrow> m)
          in Inr \<lparr>base = b,
                  self_n_iter = n_iter a,
                  self_n_layers_hidden = n_layers_hidden a,
                  self_n_units_hidden = n_units_hidden a,
                  self_batch_size = batch_size a,
                  self_num_transform_blocks = num_transform_blocks a,
                  self_dropout = dropout a,
                  self_batch_norm = batch_norm a,
                  self_num_bins = num_bins a,
                  self_tail_bound = tail_bound a,
                  self_apply_unconditional_transform = apply_unconditional_transform a,
                  self_lr = lr a,
                  self_base_distribution = base_distribution a,
                  self_linear_transform_type = linear_transform_type a,
                  self_base_transform_type = base_transform_type a,
                  self_encoder_max_clusters = encoder_max_clusters a,
                  self_tabular = tabular a,
                  self_n_iter_min = n_iter_min a,
                  self_n_iter_print = n_iter_print a,
                  self_patience = patience a,
                  self_patience_metric = patience_metric'\<rparr>)"

section \<open>Properties of the loop\<close>

text \<open>
  With \<open>c\<close> rows left and a positive batch size \<open>b\<close>, the loop needs
  \<open>\<lceil>c / b\<rceil>\<close> more iterations: one iteration lowers that number by one.
\<close>

lemma ceiling_quotient_step:
  fixes c b :: int
  assumes "0 < c" "0 < b"
  shows "\<lceil>of_int (c - min b c) / of_int (min b c) :: rat\<rceil> = \<lceil>of_int c / of_int b :: rat\<rceil> - 1"
proof (cases "c \<le> b")
  case True
  have "(0::rat) < of_int c / of_int b" "of_int c / of_int b \<le> (1::rat)"
    using assms True by simp_all
  then have "\<lceil>of_int c / of_int b :: rat\<rceil> = 1"
    by (intro ceiling_unique) simp_all
  with True show ?thesis
    by (simp add: min_def)
next
  case False
  then have m: "min b c = b"
    by simp
  have "(of_int (c - b) / of_int b :: rat) = of_int c / of_int b - 1"
    using assms by (simp add: field_simps)
  then show ?thesis
    by (simp only: m ceiling_diff_one)
qed

lemma ceiling_quotient_nonneg:
  fixes c b :: int
  assumes "0 \<le> c" "0 < b"
  shows "0 \<le> \<lceil>of_int c / of_int b :: rat\<rceil>"
proof -
  have "(0::rat) \<le> of_int c / of_int b"
    using assms by simp
  then have "\<lceil>0::rat\<rceil> \<le> \<lceil>of_int c / of_int b :: rat\<rceil>"
    by (rule ceiling_mono)
  then show ?thesis
    by simp
qed

lemma loop_body_fields:
  "count (loop_body gen st) = count st - min (batch st) (count st)"
  "batch (loop_body gen st) = min (batch st) (count st)"
  "retries (loop_body gen st) = retries st + 1"
  "max_retries (loop_body gen st) = max_retries st"
  "requests (loop_body gen st) = requests st @ [(count st, min (batch st) (count st))]"
  by (simp_all add: loop_body_def Let_def)

lemma loop_counts:
  assumes "0 \<le> count st" "0 < batch st"
    "of_int (retries st + \<lceil>of_int (count st) / of_int (batch st) :: rat\<rceil>) < max_retries st"
  shows "count (loop gen st) = 0 \<and>
         retries (loop gen st) = retries st + \<lceil>of_int (count st) / of_int (batch st) :: rat\<rceil> \<and>
         max_retries (loop gen st) = max_retries st"
  using assms
proof (induction gen st rule: loop.induct)
  case (1 gen st)
  let ?k = "\<lceil>of_int (count st) / of_int (batch st) :: rat\<rceil>"
  have k0: "0 \<le> ?k"
    using "1.prems"(1,2) by (rule ceiling_quotient_nonneg)
  have budget: "of_int (retries st) < max_retries st"
  proof -
    have "retries st \<le> retries st + ?k"
      using k0 by linarith
    then have "(of_int (retries st) :: rat) \<le> of_int (retries st + ?k)"
      by (simp only: of_int_le_iff)
    then show ?thesis
      using "1.prems"(3) by (rule le_less_trans)
  qed
  show ?case
  proof (cases "loop_cond st")
    case False
    with budget "1.prems"(1) have "count st = 0"
      by (simp add: loop_cond_def)
    with False show ?thesis
      by (simp add: loop.simps)
  next
    case True
    then have cpos: "0 < count st"
      by (simp add: loop_cond_def)
    let ?st' = "loop_body gen st"
    have step: "\<lceil>of_int (count ?st') / of_int (batch ?st') :: rat\<rceil> = ?k - 1"
      using ceiling_quotient_step [OF cpos "1.prems"(2)] by (simp only: loop_body_fields)
    have total: "retries ?st' + \<lceil>of_int (count ?st') / of_int (batch ?st') :: rat\<rceil>
                  = retries st + ?k"
      unfolding step by (simp add: loop_body_fields(3))
    have p1: "0 \<le> count ?st'" and p2: "0 < batch ?st'"
      using cpos "1.prems"(2) by (simp_all add: loop_body_fields)
    have p3: "of_int (retries ?st' + \<lceil>of_int (count ?st') / of_int (batch ?st') :: rat\<rceil>)
                < max_retries ?st'"
      using "1.prems"(3) by (simp only: total loop_body_fields(4))
    from "1.IH" [OF True p1 p2 p3]
    have "count (loop gen ?st') = 0 \<and> retries (loop gen ?st') = retries st + ?k \<and>
          max_retries (loop gen ?st') = max_retries st"
      by (simp only: total loop_body_fields(4))
    moreover have "loop gen st = loop gen ?st'"
      using True by (subst loop.simps) simp
    ultimately show ?thesis
      by simp
  qed
qed


lemma loop_max_retries: "max_retries (loop gen st) = max_retries st"
proof (induction gen st rule: loop.induct)
  case (1 gen st)
  show ?case
  proof (cases "loop_cond st")
    case True
    then have "loop gen st = loop gen (loop_body gen st)"
      by (subst loop.simps) simp
    with "1.IH" [OF True] show ?thesis
      by (simp add: loop_body_fields)
  next
    case False
    then show ?thesis
      by (simp add: loop.simps)
  qed
qed

lemma loop_within_budget:
  "retries (loop gen st) = retries st \<or>
   (retries st < retries (loop gen st) \<and> of_int (retries (loop gen st) - 1) < max_retries st)"
proof (induction gen st rule: loop.induct)
  case (1 gen st)
  show ?case
  proof (cases "loop_cond st")
    case True
    then have eq: "loop gen st = loop gen (loop_body gen st)"
      by (subst loop.simps) simp
    from True have b: "of_int (retries st) < max_retries st"
      by (simp add: loop_cond_def)
    from "1.IH" [OF True] b show ?thesis
      unfolding eq by (auto simp: loop_body_fields)
  next
    case False
    then show ?thesis
      by (simp add: loop.simps)
  qed
qed

lemma loop_requests:
  assumes "0 < batch st" "min (batch st) (count st) = min B (count st)"
  shows "\<exists>new. requests (loop gen st) = requests st @ new \<and>
           int (length new) = retries (loop gen st) - retries st \<and>
           (\<forall>(c, b) \<in> set new. b = min B c)"
  using assms
proof (induction gen st rule: loop.induct)
  case (1 gen st)
  show ?case
  proof (cases "loop_cond st")
    case True
    then have eq: "loop gen st = loop gen (loop_body gen st)"
      by (subst loop.simps) simp
    from True have cpos: "0 < count st"
      by (simp add: loop_cond_def)
    let ?st' = "loop_body gen st"
    have p1: "0 < batch ?st'"
      using cpos "1.prems"(1) by (simp add: loop_body_fields)
    have p2: "min (batch ?st') (count ?st') = min B (count ?st')"
      using cpos "1.prems" by (simp add: loop_body_fields min_def split: if_splits)
    from "1.IH" [OF True p1 p2] obtain new where
      n: "requests (loop gen ?st') = requests ?st' @ new"
         "int (length new) = retries (loop gen ?st') - retries ?st'"
         "\<forall>(c, b) \<in> set new. b = min B c"
      by blast
    let ?new = "(count st, min (batch st) (count st)) # new"
    have "requests (loop gen st) = requests st @ ?new"
      unfolding eq n(1) by (simp add: loop_body_fields)
    moreover have "int (length ?new) = retries (loop gen st) - retries st"
      unfolding eq using n(2) by (simp add: loop_body_fields)
    moreover have "\<forall>(c, b) \<in> set ?new. b = min B c"
      using n(3) "1.prems"(2) by simp
    ultimately show ?thesis
      by blast
  next
    case False
    then show ?thesis
      by (simp add: loop.simps)
  qed
qed


lemma loop_result_all_succeed:
  assumes "\<forall>i n. 1 \<le> n \<longrightarrow> (\<exists>rows. gen i n = Inr rows \<and> int (length rows) = n)"
    and "0 \<le> count st" "0 < batch st"
    and "of_int (retries st + \<lceil>of_int (count st) / of_int (batch st) :: rat\<rceil>) < max_retries st"
  shows "int (length (result (loop gen st))) = int (length (result st)) + count st"
  using assms
proof (induction gen st rule: loop.induct)
  case (1 gen st)
  let ?k = "\<lceil>of_int (count st) / of_int (batch st) :: rat\<rceil>"
  show ?case
  proof (cases "loop_cond st")
    case False
    have "count (loop gen st) = 0"
      using loop_counts [where gen = gen, OF "1.prems"(2,3,4)] by simp
    with False show ?thesis
      by (simp add: loop.simps)
  next
    case True
    then have eq: "loop gen st = loop gen (loop_body gen st)"
      by (subst loop.simps) simp
    from True have cpos: "0 < count st"
      by (simp add: loop_cond_def)
    let ?st' = "loop_body gen st"
    let ?b = "min (batch st) (count st)"
    have "1 \<le> ?b"
      using cpos "1.prems"(3) by simp
    then obtain rows where rows: "gen (length (requests st)) ?b = Inr rows" "int (length rows) = ?b"
      using "1.prems"(1) by blast
    have r: "result ?st' = result st @ rows"
      by (simp add: loop_body_def Let_def rows)
    have step: "\<lceil>of_int (count ?st') / of_int (batch ?st') :: rat\<rceil> = ?k - 1"
      using ceiling_quotient_step [OF cpos "1.prems"(3)] by (simp only: loop_body_fields)
    have total: "retries ?st' + \<lceil>of_int (count ?st') / of_int (batch ?st') :: rat\<rceil>
                  = retries st + ?k"
      unfolding step by (simp add: loop_body_fields(3))
    have p1: "0 \<le> count ?st'" and p2: "0 < batch ?st'"
      using cpos "1.prems"(3) by (simp_all add: loop_body_fields)
    have p3: "of_int (retries ?st' + \<lceil>of_int (count ?st') / of_int (batch ?st') :: rat\<rceil>)
                < max_retries ?st'"
      using "1.prems"(4) by (simp only: total loop_body_fields(4))
    from "1.IH" [OF True "1.prems"(1) p1 p2 p3]
    have "int (length (result (loop gen ?st'))) = int (length (result ?st')) + count ?st'" .
    then show ?thesis
      unfolding eq r using rows(2) by (simp add: loop_body_fields)
  qed
qed

text \<open>How a run starts, and what the budget allows.\<close>

lemma internal_generate_run_Inr:
  assumes "gen 0 1 = Inr t" "cnt \<noteq> 0"
  shows "internal_generate_run gen cnt =
     (let st = loop gen \<lparr>batch = min 5000 cnt, result = t,
                 max_retries = of_int cnt / of_int (min 5000 cnt) + 1,
                 count = cnt - 1, retries = 0, requests = [(cnt, 1)]\<rparr>
      in (requests st, Inr st))"
  using assms by (simp add: internal_generate_run_def Let_def min_def)

lemma initial_budget:
  fixes cnt :: int
  assumes "1 \<le> cnt"
  shows "of_int (0 + \<lceil>of_int (cnt - 1) / of_int (min 5000 cnt) :: rat\<rceil>)
           < (of_int cnt / of_int (min 5000 cnt) + 1 :: rat)"
proof -
  let ?b = "of_int (min 5000 cnt) :: rat"
  let ?x = "of_int (cnt - 1) / ?b"
  have b: "0 < ?b"
    using assms by simp
  have "of_int \<lceil>?x\<rceil> < ?x + 1"
    using ceiling_correct [of ?x] by linarith
  moreover have "?x < of_int cnt / ?b"
    using b by (simp add: divide_strict_right_mono)
  ultimately show ?thesis
    by simp
qed

lemma budget_permits:
  fixes c b r :: int
  assumes "0 < b" "\<not> b dvd c"
  shows "of_int r < (of_int c / of_int b + 1 :: rat) \<longleftrightarrow> r < c div b + 2"
proof -
  let ?q = "of_int c / of_int b :: rat"
  have fl: "\<lfloor>?q\<rfloor> = c div b"
    by (rule floor_divide_of_int_eq)
  have ne: "?q \<noteq> of_int (c div b)"
  proof
    assume "?q = of_int (c div b)"
    then have "(of_int c :: rat) = of_int (c div b * b)"
      using assms(1) by (simp add: field_simps)
    then have "c = c div b * b"
      by (simp only: of_int_eq_iff)
    then have "b dvd c"
      by (metis dvd_triv_right)
    with assms(2) show False ..
  qed
  have "of_int r < ?q + 1 \<longleftrightarrow> of_int (r - 1) < ?q"
    by auto
  also have "\<dots> \<longleftrightarrow> of_int (r - 1) \<le> ?q"
  proof
    assume "of_int (r - 1) < ?q" then show "of_int (r - 1) \<le> ?q" by simp
  next
    assume le: "of_int (r - 1) \<le> ?q"
    then have "r - 1 \<le> c div b"
      using fl by (simp only: le_floor_iff [symmetric])
    show "of_int (r - 1) < ?q"
    proof (rule ccontr)
      assume "\<not> of_int (r - 1) < ?q"
      with le have "?q = of_int (r - 1)" by simp
      then have "\<lfloor>?q\<rfloor> = r - 1" by (simp only: floor_of_int)
      with fl have "r - 1 = c div b" by simp
      with \<open>?q = of_int (r - 1)\<close> ne show False by simp
    qed
  qed
  also have "\<dots> \<longleftrightarrow> r - 1 \<le> \<lfloor>?q\<rfloor>"
    by (simp only: le_floor_iff)
  also have "\<dots> \<longleftrightarrow> r < c div b + 2"
    unfolding fl by linarith
  finally show ?thesis .
qed

section \<open>The claims\<close>

text \<open>
  Claim C7. For \<open>count = 1\<close> the run makes exactly one request to the model, the
  single-row draw; the loop condition is false on entry, so the body is never run
  (\<open>retries\<close> stays 0), and the table of that draw is returned as it is. If the draw
  raises, its exception leaves the function.
\<close>

theorem single_row_request:
  "internal_generate_run gen 1 =
     ([(1, 1)],
      case gen 0 1 of
        Inl e \<Rightarrow> Inl (Raised e)
      | Inr t \<Rightarrow> Inr \<lparr>batch = 1, result = t, max_retries = 2, count = 0, retries = 0,
                       requests = [(1, 1)]\<rparr>) \<and>
   internal_generate gen 1 = (case gen 0 1 of Inl e \<Rightarrow> Inl (Raised e) | Inr t \<Rightarrow> Inr t) \<and>
   \<not> loop_cond \<lparr>batch = 1, result = t', max_retries = 2, count = 0, retries = 0,
                 requests = [(1, 1)]\<rparr>"
  by (cases "gen 0 1")
    (simp_all add: internal_generate_def internal_generate_run_def loop.simps loop_cond_def)

text \<open>
  Claim C10. For \<open>count = 0\<close> the run draws one row and then raises ZeroDivisionError:
  \<open>batch = min(5000, 0)\<close> is 0 and \<open>count / batch\<close> divides by it. No table, empty or
  not, is returned.
\<close>

theorem zero_count_division_error:
  assumes "gen 0 1 = Inr t"
  shows "internal_generate_run gen 0 = ([(0, 1)], Inl ZeroDivisionError) \<and>
         internal_generate gen 0 = Inl ZeroDivisionError \<and>
         internal_generate gen 0 \<noteq> Inr []"
  using assms by (simp add: internal_generate_def internal_generate_run_def)

theorem zero_count_division_error_witness:
  "internal_generate_run (\<lambda>i n. Inr (replicate (nat n) ()) :: unit + unit list) 0
     = ([(0, 1)], Inl ZeroDivisionError)"
  using zero_count_division_error [of "\<lambda>i n. Inr (replicate (nat n) ()) :: unit + unit list" "[()]"]
  by simp

text \<open>
  Claim C6. An exception of the model leaves \<open>_internal_generate\<close> exactly when the first,
  single-row draw raised it. Once that draw has succeeded and \<open>count\<close> is not 0, a table
  is returned, whatever the draws inside the loop do.
\<close>

theorem only_first_draw_raises:
  "(internal_generate gen cnt = Inl (Raised e) \<longleftrightarrow> gen 0 1 = Inl e) \<and>
   (\<forall>t. gen 0 1 = Inr t \<longrightarrow> cnt \<noteq> 0 \<longrightarrow> (\<exists>tbl. internal_generate gen cnt = Inr tbl))"
proof (cases "gen 0 1")
  case (Inl x)
  then show ?thesis
    by (simp add: internal_generate_def internal_generate_run_def)
next
  case (Inr t)
  then show ?thesis
    by (simp add: internal_generate_def internal_generate_run_def Let_def min_def)
qed

theorem only_first_draw_raises_witness:
  "internal_generate (\<lambda>i n. if i = 0 then Inr [()] else Inl () :: unit + unit list) 3
     \<noteq> Inl (Raised ()) \<and>
   (\<exists>tbl. internal_generate (\<lambda>i n. if i = 0 then Inr [()] else Inl () :: unit + unit list) 3
      = Inr tbl)"
  using only_first_draw_raises
    [of "\<lambda>i n. if i = 0 then Inr [()] else Inl () :: unit + unit list" 3 "()"]
  by simp

text \<open>
  Claim C9. For \<open>count \<ge> 2\<close> and every pattern of successes and failures of the draws
  inside the loop, the loop ends with \<open>count = 0\<close> after exactly
  \<open>\<lceil>(count - 1) / min(5000, count)\<rceil>\<close> iterations, and \<open>retries < max_retries\<close> still
  holds at that point: it held at every earlier test, where \<open>retries\<close> was smaller.
\<close>

theorem loop_exits_on_count:
  assumes "2 \<le> cnt" "gen 0 1 = Inr t"
  shows "\<exists>st. internal_generate_run gen cnt = (requests st, Inr st) \<and>
           count st = 0 \<and>
           retries st = \<lceil>of_int (cnt - 1) / of_int (min 5000 cnt) :: rat\<rceil> \<and>
           of_int (retries st) < max_retries st"
proof -
  let ?ini = "\<lparr>batch = min 5000 cnt, result = t,
               max_retries = of_int cnt / of_int (min 5000 cnt) + 1,
               count = cnt - 1, retries = 0, requests = [(cnt, 1)]\<rparr>"
  let ?fin = "loop gen ?ini"
  from assms have run: "internal_generate_run gen cnt = (requests ?fin, Inr ?fin)"
    by (simp add: internal_generate_run_Inr Let_def)
  have "0 \<le> count ?ini" "0 < batch ?ini"
    using assms(1) by simp_all
  moreover have "of_int (retries ?ini + \<lceil>of_int (count ?ini) / of_int (batch ?ini) :: rat\<rceil>)
      < max_retries ?ini"
    using initial_budget [of cnt] assms(1) by simp
  ultimately have c: "count ?fin = 0 \<and>
      retries ?fin = retries ?ini + \<lceil>of_int (count ?ini) / of_int (batch ?ini) :: rat\<rceil> \<and>
      max_retries ?fin = max_retries ?ini"
    by (rule loop_counts)
  then have "count ?fin = 0"
    and r: "retries ?fin = \<lceil>of_int (cnt - 1) / of_int (min 5000 cnt) :: rat\<rceil>"
    and m: "max_retries ?fin = of_int cnt / of_int (min 5000 cnt) + 1"
    by simp_all
  moreover have "of_int (retries ?fin) < max_retries ?fin"
    unfolding r m using initial_budget [of cnt] assms(1) by simp
  ultimately show ?thesis
    using run by blast
qed

theorem loop_exits_on_count_witness:
  "\<exists>st. internal_generate_run (\<lambda>i n. if even i then Inr [()] else Inl () :: unit + unit list) 15001
          = (requests st, Inr st) \<and> count st = 0 \<and> retries st = 3 \<and>
        of_int (retries st) < max_retries st"
proof -
  have "\<lceil>15000 / 5000 :: rat\<rceil> = 3"
    by simp
  then show ?thesis
    using loop_exits_on_count
      [of 15001 "\<lambda>i n. if even i then Inr [()] else Inl () :: unit + unit list" "[()]"]
    by simp
qed

text \<open>
  Claim C2. For \<open>count = N \<ge> 1\<close>, if every draw succeeds and returns as many rows as it
  was asked for, the run returns a table of exactly \<open>N\<close> rows; every request made inside
  the loop asks for \<open>min(initial_batch, count)\<close> rows, with \<open>count\<close> the rows left at that
  moment and \<open>initial_batch = min(5000, N)\<close>; the loop makes one request per iteration and
  runs at most \<open>N div initial_batch + 1\<close> iterations.
\<close>

theorem all_draws_succeed:
  assumes "1 \<le> cnt"
    and "\<forall>i n. 1 \<le> n \<longrightarrow> (\<exists>rows. gen i n = Inr rows \<and> int (length rows) = n)"
  shows "\<exists>st. internal_generate_run gen cnt = (requests st, Inr st) \<and>
           internal_generate gen cnt = Inr (result st) \<and>
           int (length (result st)) = cnt \<and>
           (\<forall>(c, b) \<in> set (tl (requests st)). b = min (min 5000 cnt) c) \<and>
           int (length (tl (requests st))) = retries st \<and>
           retries st \<le> cnt div min 5000 cnt + 1"
proof -
  obtain t where t: "gen 0 1 = Inr t" "int (length t) = 1"
    using assms(2) by force
  let ?B = "min 5000 cnt"
  let ?ini = "\<lparr>batch = ?B, result = t, max_retries = of_int cnt / of_int ?B + 1,
               count = cnt - 1, retries = 0, requests = [(cnt, 1)]\<rparr>"
  let ?fin = "loop gen ?ini"
  from assms(1) t(1) have run: "internal_generate_run gen cnt = (requests ?fin, Inr ?fin)"
    by (simp add: internal_generate_run_Inr Let_def)
  then have res: "internal_generate gen cnt = Inr (result ?fin)"
    by (simp add: internal_generate_def)
  have i1: "0 \<le> count ?ini" and i2: "0 < batch ?ini"
    using assms(1) by simp_all
  have i3: "of_int (retries ?ini + \<lceil>of_int (count ?ini) / of_int (batch ?ini) :: rat\<rceil>)
      < max_retries ?ini"
    using initial_budget [of cnt] assms(1) by simp
  have "int (length (result ?fin)) = int (length (result ?ini)) + count ?ini"
    using assms(2) i1 i2 i3 by (rule loop_result_all_succeed)
  then have len: "int (length (result ?fin)) = cnt"
    using t(2) by simp
  have "min (batch ?ini) (count ?ini) = min ?B (count ?ini)"
    by simp
  with i2 obtain new where new: "requests ?fin = requests ?ini @ new"
      "int (length new) = retries ?fin - retries ?ini" "\<forall>(c, b) \<in> set new. b = min ?B c"
    using loop_requests [of ?ini ?B gen] by blast
  from new(1) have tl: "tl (requests ?fin) = new"
    by simp
  have reqs: "\<forall>(c, b) \<in> set (tl (requests ?fin)). b = min ?B c"
    unfolding tl by (rule new(3))
  have nreq: "int (length (tl (requests ?fin))) = retries ?fin"
    unfolding tl using new(2) by simp
  have r: "retries ?fin = \<lceil>of_int (cnt - 1) / of_int ?B :: rat\<rceil>"
    using loop_counts [where gen = gen, OF i1 i2 i3] by simp
  have "of_int (retries ?fin) < (of_int cnt / of_int ?B + 1 :: rat)"
    unfolding r using initial_budget [of cnt] assms(1) by simp
  then have "of_int (retries ?fin - 1) \<le> (of_int cnt / of_int ?B :: rat)"
    by simp
  then have "retries ?fin - 1 \<le> \<lfloor>of_int cnt / of_int ?B :: rat\<rfloor>"
    by (simp only: le_floor_iff)
  then have "retries ?fin - 1 \<le> cnt div ?B"
    by (simp only: floor_divide_of_int_eq)
  then have bound: "retries ?fin \<le> cnt div ?B + 1"
    by linarith
  from run res len reqs nreq bound show ?thesis
    by blast
qed

theorem all_draws_succeed_witness:
  "\<exists>st. internal_generate_run (\<lambda>i n. Inr (replicate (nat n) ()) :: unit + unit list) 7
          = (requests st, Inr st) \<and>
        internal_generate (\<lambda>i n. Inr (replicate (nat n) ()) :: unit + unit list) 7
          = Inr (result st) \<and>
        length (result st) = 7 \<and> retries st \<le> 2"
  using all_draws_succeed [of 7 "\<lambda>i n. Inr (replicate (nat n) ()) :: unit + unit list"]
  by simp blast



text \<open>
  Claim C1, as amended. \<open>max_retries\<close> is the exact quotient \<open>count / initial_batch + 1\<close>
  of the requested count and \<open>initial_batch = min(5000, count)\<close>, not its floor; it has the
  same value when the function returns; an iteration runs only with \<open>retries\<close> below it.
  For a count that \<open>initial_batch\<close> does not divide, the values of \<open>retries\<close> the budget
  lets through are those below \<open>count div initial_batch + 2\<close>: the budget allows
  \<open>count div initial_batch + 2\<close> iterations.
\<close>

theorem retry_budget_true_division:
  assumes "cnt \<noteq> 0" "gen 0 1 = Inr t"
  shows "\<exists>st. internal_generate_run gen cnt = (requests st, Inr st) \<and>
           max_retries st = of_int cnt / of_int (min 5000 cnt) + 1 \<and>
           (retries st = 0 \<or> of_int (retries st - 1) < max_retries st) \<and>
           (\<not> min 5000 cnt dvd cnt \<longrightarrow>
              (\<forall>r :: int. of_int r < max_retries st \<longleftrightarrow> r < cnt div min 5000 cnt + 2))"
proof -
  let ?B = "min 5000 cnt"
  let ?ini = "\<lparr>batch = ?B, result = t, max_retries = of_int cnt / of_int ?B + 1,
               count = cnt - 1, retries = 0, requests = [(cnt, 1)]\<rparr>"
  let ?fin = "loop gen ?ini"
  from assms have run: "internal_generate_run gen cnt = (requests ?fin, Inr ?fin)"
    by (simp add: internal_generate_run_Inr Let_def)
  have m: "max_retries ?fin = of_int cnt / of_int ?B + 1"
    by (simp add: loop_max_retries)
  have w: "retries ?fin = 0 \<or> of_int (retries ?fin - 1) < max_retries ?fin"
    using loop_within_budget [of gen ?ini] by (auto simp: loop_max_retries)
  have p: "\<forall>r :: int. of_int r < max_retries ?fin \<longleftrightarrow> r < cnt div ?B + 2"
    if nd: "\<not> ?B dvd cnt"
  proof -
    have pos: "0 < ?B"
    proof (rule ccontr)
      assume "\<not> 0 < ?B"
      then have "?B = cnt" by simp
      with nd show False by simp
    qed
    show ?thesis
      unfolding m using budget_permits [OF pos nd] by blast
  qed
  from run m w p show ?thesis
    by blast
qed

theorem retry_budget_true_division_witness:
  "\<exists>st. internal_generate_run (\<lambda>i n. if i = 0 then Inr [()] else Inl () :: unit + unit list) 7000
          = (requests st, Inr st) \<and>
        max_retries st = 12 / 5 \<and>
        (\<forall>r :: int. of_int r < max_retries st \<longleftrightarrow> r < 3)"
  using retry_budget_true_division
    [of 7000 "\<lambda>i n. if i = 0 then Inr [()] else Inl () :: unit + unit list" "[()]"]
  by simp blast

text \<open>
  Claim C1 as stated fails at \<open>count = 7000\<close>, which 5000 does not divide: the budget is
  \<open>12 / 5\<close>, not \<open>7000 div 5000 + 1 = 2\<close>, and it lets a third iteration
  (\<open>retries = 2\<close>) through, which a budget of 2 would refuse.
\<close>

theorem retry_budget_floor_counterexample:
  "map_sum id max_retries
     (snd (internal_generate_run
        (\<lambda>i n. if i = 0 then Inr [()] else Inl () :: unit + unit list) 7000)) = Inr (12 / 5) \<and>
   (12 / 5 :: rat) \<noteq> of_int (7000 div min 5000 7000 + 1) \<and>
   \<not> (5000 :: int) dvd 7000 \<and>
   rat_of_int 2 < 12 / 5 \<and>
   \<not> (2 :: int) < 7000 div min 5000 7000 + 1"
  by (simp add: internal_generate_run_def loop.simps loop_cond_def loop_body_def Let_def)

text \<open>
  Claim C5. \<open>hyperparameter_space\<close> is a static method: it has no \<open>self\<close>, ignores its
  keyword arguments and returns the same nine axes, in the same order, with the declared
  domains. The axis names are pairwise distinct, and each is the name of a parameter of
  the constructor's signature.
\<close>

theorem hyperparameter_space_axes:
  "hyperparameter_space kw =
     [IntegerDistribution ''n_iter'' 100 5000 (Some 100),
      IntegerDistribution ''n_layers_hidden'' 1 10 None,
      IntegerDistribution ''n_units_hidden'' 10 100 None,
      CategoricalDistribution ''batch_size'' [IntV 32, IntV 64, IntV 128, IntV 256, IntV 512],
      FloatDistribution ''dropout'' 0 (2 / 10),
      CategoricalDistribution ''batch_norm'' [BoolV True, BoolV False],
      CategoricalDistribution ''lr'' [FloatV (1 / 1000), FloatV (1 / 10000), FloatV (2 / 10000)],
      CategoricalDistribution ''linear_transform_type''
        [StrV ''lu'', StrV ''permutation'', StrV ''svd''],
      CategoricalDistribution ''base_transform_type''
        [StrV ''affine-coupling'', StrV ''quadratic-coupling'', StrV ''rq-coupling'',
         StrV ''affine-autoregressive'', StrV ''quadratic-autoregressive'',
         StrV ''rq-autoregressive'']] \<and>
   hyperparameter_space kw = hyperparameter_space kw' \<and>
   length (hyperparameter_space kw) = 9 \<and>
   distinct (map name (hyperparameter_space kw)) \<and>
   set (map name (hyperparameter_space kw)) \<subseteq> set init_param_names"
  by (simp add: hyperparameter_space_def init_param_names_def)

text \<open>
  Claim C4, as amended. The constructor compares no value with a declared domain. It
  raises exactly when the base class initialiser raises, with the same exception, and
  that one is given none of the hyperparameters. When it does not raise, each of the
  nineteen hyperparameters is stored in the object as it was passed, inside its declared
  domain or not; in particular, constructing with another \<open>dropout\<close> raises the same
  exception or stores the new value unchanged.
\<close>

theorem init_ignores_domain:
  "init super_init (a\<lparr>dropout := d\<rparr>)
     = map_sum id (\<lambda>p. p\<lparr>self_dropout := d\<rparr>) (init super_init a) \<and>
   (\<forall>x. init super_init a = Inl x \<longleftrightarrow>
      super_init (device a) (random_state a) (sampling_patience a) (workspace a)
        (compress_dataset a) (kwargs a) = Inl x) \<and>
   (\<forall>p. init super_init a = Inr p \<longrightarrow>
      self_n_iter p = n_iter a \<and>
      self_n_layers_hidden p = n_layers_hidden a \<and>
      self_n_units_hidden p = n_units_hidden a \<and>
      self_batch_size p = batch_size a \<and>
      self_num_transform_blocks p = num_transform_blocks a \<and>
      self_dropout p = dropout a \<and>
      self_batch_norm p = batch_norm a \<and>
      self_num_bins p = num_bins a \<and>
      self_tail_bound p = tail_bound a \<and>
      self_apply_unconditional_transform p = apply_unconditional_transform a \<and>
      self_lr p = lr a \<and>
      self_base_distribution p = base_distribution a \<and>
      self_linear_transform_type p = linear_transform_type a \<and>
      self_base_transform_type p = base_transform_type a \<and>
      self_encoder_max_clusters p = encoder_max_clusters a \<and>
      self_tabular p = tabular a \<and>
      self_n_iter_min p = n_iter_min a \<and>
      self_n_iter_print p = n_iter_print a \<and>
      self_patience p = patience a)"
proof (cases "super_init (device a) (random_state a) (sampling_patience a) (workspace a)
        (compress_dataset a) (kwargs a)")
  case (Inl x)
  then show ?thesis
    by (simp add: init_def)
next
  case (Inr b)
  then show ?thesis
    by (auto simp: init_def Let_def split: option.split)
qed

theorem init_ignores_domain_witness:
  "\<exists>p. init (\<lambda>dev rs sp ws cd kw. Inr ())
          ((default_args ())\<lparr>n_iter := 7, n_layers_hidden := 0, n_units_hidden := 1000,
             batch_size := 500, dropout := 1 / 2, lr := 5,
             linear_transform_type := ''bogus'', base_transform_type := ''none''\<rparr>)
        = (Inr p :: unit + unit plugin) \<and>
       self_n_iter p = 7 \<and> self_n_layers_hidden p = 0 \<and> self_n_units_hidden p = 1000 \<and>
       self_batch_size p = 500 \<and> self_dropout p = 1 / 2 \<and> self_lr p = 5 \<and>
       self_linear_transform_type p = ''bogus'' \<and> self_base_transform_type p = ''none''"
proof -
  let ?acc = "\<lambda>(dev :: unit) (rs :: int) (sp :: int) (ws :: string) (cd :: bool)
                (kw :: (string \<times> unit) list). (Inr () :: unit + unit)"
  let ?a = "(default_args ())\<lparr>n_iter := 7, n_layers_hidden := 0, n_units_hidden := 1000,
             batch_size := 500, dropout := 1 / 2, lr := 5,
             linear_transform_type := ''bogus'', base_transform_type := ''none''\<rparr>"
  obtain p where p: "init ?acc ?a = Inr p"
    by (simp add: init_def)
  from init_ignores_domain [where super_init = ?acc and a = ?a and d = "1 / 2"] p
  have "self_n_iter p = n_iter ?a \<and> self_n_layers_hidden p = n_layers_hidden ?a \<and>
        self_n_units_hidden p = n_units_hidden ?a \<and> self_batch_size p = batch_size ?a \<and>
        self_dropout p = dropout ?a \<and> self_lr p = lr ?a \<and>
        self_linear_transform_type p = linear_transform_type ?a \<and>
        self_base_transform_type p = base_transform_type ?a"
    by blast
  then have "self_n_iter p = 7 \<and> self_n_layers_hidden p = 0 \<and> self_n_units_hidden p = 1000 \<and>
       self_batch_size p = 500 \<and> self_dropout p = 1 / 2 \<and> self_lr p = 5 \<and>
       self_linear_transform_type p = ''bogus'' \<and> self_base_transform_type p = ''none''"
    by (simp add: default_args_def)
  with p show ?thesis
    by blast
qed

text \<open>
  Claim C4 as stated fails: with a base class initialiser that accepts its arguments,
  the default configuration with \<open>dropout = 0.5\<close>, outside the declared \<open>Float[0, 0.2]\<close>,
  is constructed and \<open>self.dropout\<close> is 0.5.
\<close>

theorem dropout_out_of_domain_counterexample:
  "map_sum id self_dropout
     (init (\<lambda>dev rs sp ws cd kw. Inr ()) ((default_args ())\<lparr>dropout := 1 / 2\<rparr>))
     = (Inr (1 / 2) :: unit + rat) \<and>
   FloatDistribution ''dropout'' 0 (2 / 10) \<in> set (hyperparameter_space ([] :: (string \<times> unit) list)) \<and>
   \<not> (1 / 2 :: rat) \<le> 2 / 10"
  by (simp add: init_def default_args_def hyperparameter_space_def)

text \<open>
  Claim C8. When construction succeeds and no \<open>patience_metric\<close> was given, the stored
  metric is \<open>WeightedMetrics\<close> of the single criterion \<open>("detection", "detection_mlp")\<close>
  with the weight list \<open>[1]\<close> (and the plugin's workspace); a given \<open>patience_metric\<close> is
  stored unchanged.
\<close>

theorem default_patience_metric:
  assumes "init super_init a = Inr p"
  shows "(patience_metric a = None \<longrightarrow>
            self_patience_metric p
              = WeightedMetrics [(''detection'', ''detection_mlp'')] [1] (workspace a) \<and>
            length (metrics (self_patience_metric p)) = 1 \<and>
            weights (self_patience_metric p) = [1]) \<and>
         (\<forall>m. patience_metric a = Some m \<longrightarrow> self_patience_metric p = m)"
  using assms by (auto simp: init_def Let_def split: sum.splits)

theorem default_patience_metric_witness:
  "\<exists>p. init (\<lambda>dev rs sp ws cd kw. Inr ()) (default_args ()) = (Inr p :: unit + unit plugin) \<and>
       self_patience_metric p
         = WeightedMetrics [(''detection'', ''detection_mlp'')] [1] ''workspace'' \<and>
       (\<exists>q. init (\<lambda>dev rs sp ws cd kw. Inr ())
               ((default_args ())\<lparr>patience_metric :=
                   Some (WeightedMetrics [(''stats'', ''jensenshannon_dist'')] [1] ''w'')\<rparr>)
              = (Inr q :: unit + unit plugin) \<and>
            self_patience_metric q = WeightedMetrics [(''stats'', ''jensenshannon_dist'')] [1] ''w'')"
proof -
  let ?acc = "\<lambda>(dev :: unit) (rs :: int) (sp :: int) (ws :: string) (cd :: bool)
                (kw :: (string \<times> unit) list). (Inr () :: unit + unit)"
  let ?m = "WeightedMetrics [(''stats'', ''jensenshannon_dist'')] [1] ''w''"
  obtain p where p: "init ?acc (default_args ()) = Inr p"
    by (simp add: init_def)
  obtain q where q: "init ?acc ((default_args ())\<lparr>patience_metric := Some ?m\<rparr>) = Inr q"
    by (simp add: init_def)
  have "self_patience_metric p
          = WeightedMetrics [(''detection'', ''detection_mlp'')] [1] ''workspace''"
    using default_patience_metric [OF p] by (simp add: default_args_def)
  moreover have "self_patience_metric q = ?m"
    using default_patience_metric [OF q] by simp
  ultimately show ?thesis
    using p q by blast
qed

end
